theory Spec2Isabelle
  imports Complex_Main "HOL-Library.Sublist"
begin

section \<open>Text primitives\<close>

text \<open>
  Python strings are modelled as HOL strings (lists of 8-bit characters), so the model
  covers ASCII text. The three string operations the program uses are \<open>str.strip()\<close>,
  \<open>str.lower()\<close> and the substring test \<open>in\<close>; \<open>str(n)\<close> renders an integer
  in decimal.
\<close>

definition NL :: string where
  "NL = [CHR 0x0A]"

text \<open>The ASCII characters for which \<open>str.isspace()\<close> holds.\<close>

definition is_space :: "char \<Rightarrow> bool" where
  "is_space c = (c \<in> set [CHR 0x09, CHR 0x0A, CHR 0x0B, CHR 0x0C, CHR 0x0D,
                           CHR 0x1C, CHR 0x1D, CHR 0x1E, CHR 0x1F, CHR 0x20])"

definition strip :: "string \<Rightarrow> string" where
  "strip s = rev (dropWhile is_space (rev (dropWhile is_space s)))"

definition to_lower :: "char \<Rightarrow> char" where
  "to_lower c =
     (let n = (of_char c :: nat) in if 65 \<le> n \<and> n \<le> 90 then char_of (n + 32) else c)"

definition lower :: "string \<Rightarrow> string" where
  "lower s = map to_lower s"

text \<open>\<open>contains s sub\<close> is Python's \<open>sub in s\<close>.\<close>

fun contains :: "string \<Rightarrow> string \<Rightarrow> bool" where
  "contains [] sub = (sub = [])"
| "contains (c # cs) sub = (prefix sub (c # cs) \<or> contains cs sub)"

fun str_nat :: "nat \<Rightarrow> string" where
  "str_nat n = (if n < 10 then [char_of (48 + n)] else str_nat (n div 10) @ [char_of (48 + n mod 10)])"

definition str_int :: "int \<Rightarrow> string" where
  "str_int i = (if i < 0 then CHR ''-'' # str_nat (nat (- i)) else str_nat (nat i))"

section \<open>Configuration\<close>

datatype AgentRole = GENERATOR | CRITIC

record AgentConfig =
  name :: string
  role :: AgentRole
  system_prompt :: string
  model :: string
  temperature :: real
  max_tokens :: int

text \<open>
  The history is a list of dictionaries with the keys \<open>iteration\<close>, \<open>generator_output\<close>
  and \<open>critic_feedback\<close>; the last one holds a string or \<open>None\<close>. The fields carry the
  prefix \<open>h_\<close> to keep them apart from the fields of the conversation state.
\<close>

record IterationRecord =
  h_iteration :: int
  h_generator_output :: string
  h_critic_feedback :: "string option"

record ConversationState =
  user_query :: string
  generator_output :: string
  critic_feedback :: string
  iteration :: int
  max_iterations :: int
  history :: "IterationRecord list"
  converged :: bool

definition GENERATOR_SYSTEM_PROMPT :: string where
  "GENERATOR_SYSTEM_PROMPT =
     ''You are a Generator Agent specializing in creating comprehensive, accurate responses.'' @ NL @
     NL @
     ''Your responsibilities:'' @ NL @
     ''- Analyze user queries carefully and provide detailed, well-structured responses'' @ NL @
     ''- Draw upon your knowledge to give informative answers'' @ NL @
     ''- Be clear, concise, and accurate'' @ NL @
     ''- Structure your responses with proper formatting when appropriate'' @ NL @
     ''- If you receive feedback, incorporate it to improve your response'' @ NL @
     NL @
     ''Focus on quality and completeness. Your response will be reviewed by a Critic Agent.''"

definition CRITIC_SYSTEM_PROMPT :: string where
  "CRITIC_SYSTEM_PROMPT =
     ''You are a Critic Agent specializing in evaluating and improving responses.'' @ NL @
     NL @
     ''Your responsibilities:'' @ NL @
     ''- Review the Generator'' @ [CHR 0x27] @ ''s response critically but constructively'' @ NL @
     ''- Identify gaps, inaccuracies, or areas for improvement'' @ NL @
     ''- Provide specific, actionable feedback'' @ NL @
     ''- Suggest concrete improvements'' @ NL @
     ''- Acknowledge what was done well'' @ NL @
     ''- Focus on substance over style'' @ NL @
     NL @
     ''Format your feedback as:'' @ NL @
     ''STRENGTHS: [What was done well]'' @ NL @
     ''IMPROVEMENTS NEEDED: [Specific issues to address]'' @ NL @
     ''SUGGESTIONS: [Concrete recommendations]'' @ NL @
     NL @
     ''Be thorough but fair. Your goal is to help improve the response, not to criticize unnecessarily.''"

section \<open>The Ollama client\<close>

text \<open>
  The HTTP endpoint is the environment of the program. A POST either comes back with a
  status code and a body, or \<open>requests.post\<close> raises (connection refused, timeout, ...).
  The body is a JSON object whose \<open>response\<close> field is a string or is missing; any other
  body makes \<open>response.json()\<close>, \<open>.get\<close> or \<open>.strip()\<close> raise inside the \<open>try\<close>
  block, and \<open>Undecodable\<close> carries the text of that exception. The endpoint may answer
  differently on every call, so it is a function of a world state \<open>'w\<close> that it updates.
\<close>

datatype body = Json "string option" | Undecodable string

datatype http_reply = Reply int body | Failure string

record payload =
  p_model :: string
  p_prompt :: string
  p_system :: string
  p_stream :: bool
  p_temperature :: real

type_synonym 'w backend = "string \<Rightarrow> payload \<Rightarrow> 'w \<Rightarrow> http_reply \<times> 'w"

record OllamaClient =
  base_url :: string
  api_endpoint :: string

definition OllamaClient_init :: "string \<Rightarrow> OllamaClient" where
  "OllamaClient_init url = \<lparr>base_url = url, api_endpoint = url @ ''/api/generate''\<rparr>"

definition generate ::
  "'w backend \<Rightarrow> OllamaClient \<Rightarrow> string \<Rightarrow> string \<Rightarrow> string \<Rightarrow> real \<Rightarrow> bool \<Rightarrow> 'w \<Rightarrow> string \<times> 'w"
where
  "generate post self prompt system mdl temp stream w =
     (let pl = \<lparr>p_model = mdl, p_prompt = prompt, p_system = system, p_stream = stream,
                p_temperature = temp\<rparr>
      in case post (api_endpoint self) pl w of
           (Reply status_code b, w') \<Rightarrow>
             if status_code = 200 then
               (case b of
                  Json result \<Rightarrow> (strip (case result of None \<Rightarrow> [] | Some t \<Rightarrow> t), w')
                | Undecodable e \<Rightarrow> (''Error: '' @ e, w'))
             else (''Error: HTTP '' @ str_int status_code, w')
         | (Failure e, w') \<Rightarrow> (''Error: '' @ e, w'))"

section \<open>Agents\<close>

text \<open>
  The optional context is a dictionary from strings to strings, kept as an association
  list; \<open>None\<close> is the default argument. Subscripting \<open>None\<close> raises \<open>TypeError\<close>,
  subscripting a dictionary at a missing key raises \<open>KeyError\<close>.
\<close>

datatype py_error = TypeError | KeyError string

type_synonym context_dict = "(string \<times> string) list"

record Agent =
  config :: AgentConfig
  client :: OllamaClient
  call_count :: int

definition Agent_init :: "AgentConfig \<Rightarrow> OllamaClient \<Rightarrow> Agent" where
  "Agent_init cfg cl = \<lparr>config = cfg, client = cl, call_count = 0\<rparr>"

definition subscript :: "context_dict option \<Rightarrow> string \<Rightarrow> py_error + string" where
  "subscript ctx key =
     (case ctx of
        None \<Rightarrow> Inl TypeError
      | Some d \<Rightarrow> (case map_of d key of None \<Rightarrow> Inl (KeyError key) | Some v \<Rightarrow> Inr v))"

text \<open>The truth value of \<open>context and context.get('feedback')\<close>.\<close>

definition has_feedback :: "context_dict option \<Rightarrow> bool" where
  "has_feedback ctx =
     (case ctx of
        None \<Rightarrow> False
      | Some d \<Rightarrow> d \<noteq> [] \<and> (case map_of d ''feedback'' of None \<Rightarrow> False | Some fb \<Rightarrow> fb \<noteq> []))"

definition first_prompt :: "string \<Rightarrow> string" where
  "first_prompt input_text =
     ''User Query: '' @ input_text @ NL @ NL @ ''Provide a comprehensive response:''"

definition improve_prompt :: "string \<Rightarrow> string \<Rightarrow> string \<Rightarrow> string" where
  "improve_prompt q previous fb =
     ''Original Query: '' @ q @ NL @
     NL @
     ''Previous Response:'' @ NL @
     previous @ NL @
     NL @
     ''Feedback from Critic:'' @ NL @
     fb @ NL @
     NL @
     ''Please provide an improved response that addresses the feedback while maintaining quality.''"

definition critic_prompt :: "string \<Rightarrow> string \<Rightarrow> string" where
  "critic_prompt q input_text =
     ''Original Query: '' @ q @ NL @
     NL @
     ''Response to Evaluate:'' @ NL @
     input_text @ NL @
     NL @
     ''Provide constructive feedback following the specified format.''"

text \<open>The prompt that \<open>Agent.process\<close> builds; the f-strings read their fields left to right.\<close>

definition build_prompt :: "AgentRole \<Rightarrow> string \<Rightarrow> context_dict option \<Rightarrow> py_error + string" where
  "build_prompt r input_text ctx =
     (if r = GENERATOR then
        (if has_feedback ctx then
           (case subscript ctx ''query'' of
              Inl e \<Rightarrow> Inl e
            | Inr q \<Rightarrow>
               (case subscript ctx ''previous_response'' of
                  Inl e \<Rightarrow> Inl e
                | Inr previous \<Rightarrow>
                   (case subscript ctx ''feedback'' of
                      Inl e \<Rightarrow> Inl e
                    | Inr fb \<Rightarrow> Inr (improve_prompt q previous fb))))
         else Inr (first_prompt input_text))
      else
        (case subscript ctx ''query'' of
           Inl e \<Rightarrow> Inl e
         | Inr q \<Rightarrow> Inr (critic_prompt q input_text)))"

text \<open>
  \<open>Agent.process\<close>: the counter is incremented first, so it counts a call that raises
  as well. The result is the returned text or the exception, the agent and the world.
\<close>

definition process ::
  "'w backend \<Rightarrow> Agent \<Rightarrow> string \<Rightarrow> context_dict option \<Rightarrow> 'w \<Rightarrow> (py_error + string) \<times> Agent \<times> 'w"
where
  "process post self input_text ctx w =
     (let self = self\<lparr>call_count := call_count self + 1\<rparr>
      in case build_prompt (role (config self)) input_text ctx of
           Inl e \<Rightarrow> (Inl e, self, w)
         | Inr prompt \<Rightarrow>
             (case generate post (client self) prompt (system_prompt (config self))
                     (model (config self)) (temperature (config self)) False w of
                (response, w') \<Rightarrow> (Inr response, self, w')))"

section \<open>The coordinator\<close>

record DualAgentCoordinator =
  coord_client :: OllamaClient
  generator :: Agent
  critic :: Agent

definition DualAgentCoordinator_init :: "OllamaClient \<Rightarrow> DualAgentCoordinator" where
  "DualAgentCoordinator_init cl =
     \<lparr>coord_client = cl,
      generator = Agent_init
        \<lparr>name = ''Generator'', role = GENERATOR, system_prompt = GENERATOR_SYSTEM_PROMPT,
         model = ''granite3-moe:1b'', temperature = 7 / 10, max_tokens = 2048\<rparr> cl,
      critic = Agent_init
        \<lparr>name = ''Critic'', role = CRITIC, system_prompt = CRITIC_SYSTEM_PROMPT,
         model = ''granite3-moe:1b'', temperature = 7 / 10, max_tokens = 2048\<rparr> cl\<rparr>"

text \<open>
  The dictionary that \<open>run\<close> returns. \<open>r_converged\<close> and \<open>r_history\<close> are its keys
  \<open>converged\<close> and \<open>history\<close>.
\<close>

record RunResult =
  final_response :: string
  iterations :: int
  r_converged :: bool
  r_history :: "IterationRecord list"
  generator_calls :: int
  critic_calls :: int

definition convergence_marker :: string where
  "convergence_marker = ''no significant improvements needed''"

text \<open>The test \<open>"no significant improvements needed" in state.critic_feedback.lower()\<close>.\<close>

definition is_converged :: "string \<Rightarrow> bool" where
  "is_converged feedback = contains (lower feedback) convergence_marker"

text \<open>The context of the generator's second and later calls.\<close>

definition generator_context :: "string \<Rightarrow> ConversationState \<Rightarrow> context_dict" where
  "generator_context q state =
     [(''query'', q), (''previous_response'', generator_output state),
      (''feedback'', critic_feedback state)]"

text \<open>The statement under \<open># Store history\<close>, at loop index \<open>i\<close>.\<close>

definition store_history :: "int \<Rightarrow> int \<Rightarrow> ConversationState \<Rightarrow> ConversationState" where
  "store_history max_iters i state =
     state\<lparr>history := history state @
       [\<lparr>h_iteration = iteration state, h_generator_output = generator_output state,
         h_critic_feedback = (if i < max_iters - 1 then Some (critic_feedback state) else None)\<rparr>]\<rparr>"

text \<open>
  The two calls of one pass, under the comments \<open># Generator phase\<close> and
  \<open># Critic phase\<close> of the source. Each returns what \<open>process\<close> returns.
\<close>

definition generator_phase ::
  "'w backend \<Rightarrow> string \<Rightarrow> int \<Rightarrow> ConversationState \<times> DualAgentCoordinator \<times> 'w \<Rightarrow>
   (py_error + string) \<times> Agent \<times> 'w"
where
  "generator_phase post q i c =
     (case c of (state, self, w) \<Rightarrow>
        if i = 0 then process post (generator self) q None w
        else process post (generator self) q (Some (generator_context q state)) w)"

definition critic_phase ::
  "'w backend \<Rightarrow> string \<Rightarrow> ConversationState \<times> DualAgentCoordinator \<times> 'w \<Rightarrow>
   (py_error + string) \<times> Agent \<times> 'w"
where
  "critic_phase post q c =
     (case c of (state, self, w) \<Rightarrow>
        process post (critic self) (generator_output state) (Some [(''query'', q)]) w)"

text \<open>
  One pass through the body of the \<open>for\<close> loop at index \<open>i\<close>. It ends by falling through
  to the next index, by \<open>break\<close>, or by an exception that leaves \<open>run\<close>. The rendering on
  the terminal (\<open>verbose\<close>, the progress spinner) changes nothing that \<open>run\<close> returns and
  is left out.
\<close>

datatype flow = Next | Break | Raise py_error

definition loop_body ::
  "'w backend \<Rightarrow> string \<Rightarrow> int \<Rightarrow> int \<Rightarrow> ConversationState \<times> DualAgentCoordinator \<times> 'w \<Rightarrow>
   flow \<times> ConversationState \<times> DualAgentCoordinator \<times> 'w"
where
  "loop_body post q max_iters i c =
     (case c of (state, self, w) \<Rightarrow>
       (let state = state\<lparr>iteration := i + 1\<rparr> in
        case generator_phase post q i (state, self, w) of
          (Inl e, g, w) \<Rightarrow> (Raise e, state, self\<lparr>generator := g\<rparr>, w)
        | (Inr out, g, w) \<Rightarrow>
           (let self = self\<lparr>generator := g\<rparr>;
                state = state\<lparr>generator_output := out\<rparr>
            in if i < max_iters - 1 then
                 (case critic_phase post q (state, self, w) of
                    (Inl e, k, w) \<Rightarrow> (Raise e, state, self\<lparr>critic := k\<rparr>, w)
                  | (Inr fb, k, w) \<Rightarrow>
                     (let self = self\<lparr>critic := k\<rparr>;
                          state = state\<lparr>critic_feedback := fb\<rparr>
                      in if is_converged (critic_feedback state)
                         then (Break, state\<lparr>converged := True\<rparr>, self, w)
                         else (Next, store_history max_iters i state, self, w)))
               else (Next, store_history max_iters i state, self, w))))"

text \<open>The loop \<open>for iteration in range(max_iterations)\<close>, from index \<open>i\<close> on.\<close>

function run_loop ::
  "'w backend \<Rightarrow> string \<Rightarrow> int \<Rightarrow> int \<Rightarrow> ConversationState \<times> DualAgentCoordinator \<times> 'w \<Rightarrow>
   py_error option \<times> ConversationState \<times> DualAgentCoordinator \<times> 'w"
where
  "run_loop post q max_iters i c =
     (if i < max_iters then
        (case loop_body post q max_iters i c of
           (Next, c') \<Rightarrow> run_loop post q max_iters (i + 1) c'
         | (Break, c') \<Rightarrow> (None, c')
         | (Raise e, c') \<Rightarrow> (Some e, c'))
      else (None, c))"
  by pat_completeness auto
termination
  by (relation "measure (\<lambda>(post, q, max_iters, i, c). nat (max_iters - i))") auto

definition run ::
  "'w backend \<Rightarrow> DualAgentCoordinator \<Rightarrow> string \<Rightarrow> int \<Rightarrow> bool \<Rightarrow> 'w \<Rightarrow>
   (py_error + RunResult) \<times> DualAgentCoordinator \<times> 'w"
where
  "run post self q max_iters verbose w =
     (let state = \<lparr>user_query = q, generator_output = [], critic_feedback = [], iteration = 0,
                   max_iterations = max_iters, history = [], converged = False\<rparr>
      in case run_loop post q max_iters 0 (state, self, w) of
           (Some e, state, self, w) \<Rightarrow> (Inl e, self, w)
         | (None, state, self, w) \<Rightarrow>
             (Inr \<lparr>final_response = generator_output state, iterations = iteration state,
                   r_converged = converged state, r_history = history state,
                   generator_calls = call_count (generator self),
                   critic_calls = call_count (critic self)\<rparr>, self, w))"

declare run_loop.simps [simp del]

declare str_nat.simps [simp del]

section \<open>Auxiliary notions\<close>

text \<open>
  The coordinator as its constructor builds it has a generator of role \<open>GENERATOR\<close>
  and a critic of role \<open>CRITIC\<close>; callers change temperatures and models, never roles.
\<close>

definition well_formed :: "DualAgentCoordinator \<Rightarrow> bool" where
  "well_formed self =
     (role (config (generator self)) = GENERATOR \<and> role (config (critic self)) = CRITIC)"

text \<open>The request that \<open>process\<close> sends for a prompt, and the agent after a call.\<close>

definition ask :: "'w backend \<Rightarrow> Agent \<Rightarrow> string \<Rightarrow> 'w \<Rightarrow> string \<times> 'w" where
  "ask post a prompt w =
     generate post (client a) prompt (system_prompt (config a)) (model (config a))
       (temperature (config a)) False w"

definition called :: "Agent \<Rightarrow> Agent" where
  "called a = a\<lparr>call_count := call_count a + 1\<rparr>"

text \<open>The prompt of the generator's call at loop index \<open>i\<close>.\<close>

definition generator_prompt :: "string \<Rightarrow> int \<Rightarrow> ConversationState \<Rightarrow> string" where
  "generator_prompt q i state =
     (if i = 0 \<or> critic_feedback state = [] then first_prompt q
      else improve_prompt q (generator_output state) (critic_feedback state))"

text \<open>
  What the loop has done when it ends without an exception, from index \<open>i\<close> on: the
  agents keep their configuration, the history has grown by the records of the passes that
  reached the store, and the counters by the calls made.
\<close>

definition loop_summary ::
  "'w backend \<Rightarrow> int \<Rightarrow> int \<Rightarrow> ConversationState \<Rightarrow> DualAgentCoordinator \<Rightarrow>
   ConversationState \<Rightarrow> DualAgentCoordinator \<Rightarrow> bool"
where
  "loop_summary post N i st self st' self' =
     (well_formed self' \<and>
      config (generator self') = config (generator self) \<and>
      client (generator self') = client (generator self) \<and>
      config (critic self') = config (critic self) \<and>
      client (critic self') = client (critic self) \<and>
      coord_client self' = coord_client self \<and>
      (\<exists>new. history st' = history st @ new \<and>
         map h_iteration new = [i + 1..(if converged st' then iteration st' - 1 else N)] \<and>
         list_all (\<lambda>r. (h_critic_feedback r = None) = (h_iteration r = N)) new) \<and>
      call_count (generator self') = call_count (generator self) + (iteration st' - i) \<and>
      (if converged st'
       then i < iteration st' \<and> iteration st' < N \<and> is_converged (critic_feedback st') \<and>
            (\<exists>p w. critic_feedback st' = fst (ask post (critic self) p w)) \<and>
            call_count (critic self') = call_count (critic self) + (iteration st' - i)
       else iteration st' = max i N \<and>
            call_count (critic self') = call_count (critic self) + max 0 (N - 1 - i)))"


section \<open>Stub backends\<close>

text \<open>
  The backends of the tests the specification describes. Their world is the list of the
  prompts received so far. \<open>stub_backend\<close> tells the critic's call from the generator's
  by the system prompt and answers HTTP 200 with a fixed text for each; \<open>scripted_backend\<close>
  answers its n-th call with the n-th reply of a script.
\<close>

definition stub_backend :: "string \<Rightarrow> string \<Rightarrow> (string list) backend" where
  "stub_backend answer feedback url pl w =
     (Reply 200 (Json (Some (if p_system pl = CRITIC_SYSTEM_PROMPT then feedback else answer))),
      w @ [p_prompt pl])"


definition fresh :: DualAgentCoordinator where
  "fresh = DualAgentCoordinator_init (OllamaClient_init ''http://localhost:11434'')"

lemma subscript_generator_context:
  "subscript (Some (generator_context q st)) ''query'' = Inr q"
  "subscript (Some (generator_context q st)) ''previous_response'' = Inr (generator_output st)"
  "subscript (Some (generator_context q st)) ''feedback'' = Inr (critic_feedback st)"
  by (simp_all add: subscript_def generator_context_def)

lemma has_feedback_generator_context:
  "has_feedback (Some (generator_context q st)) = (critic_feedback st \<noteq> [])"
  by (simp add: has_feedback_def generator_context_def)

lemma build_prompt_first: "build_prompt GENERATOR x None = Inr (first_prompt x)"
  by (simp add: build_prompt_def has_feedback_def)

lemma build_prompt_later:
  "build_prompt GENERATOR x (Some (generator_context q st)) =
     Inr (if critic_feedback st = [] then first_prompt x
          else improve_prompt q (generator_output st) (critic_feedback st))"
  by (simp add: build_prompt_def has_feedback_generator_context subscript_generator_context)

lemma build_prompt_critic:
  "build_prompt CRITIC x (Some [(''query'', q)]) = Inr (critic_prompt q x)"
  by (simp add: build_prompt_def subscript_def)

lemma process_prompt:
  "build_prompt (role (config a)) x ctx = Inr p \<Longrightarrow>
   process post a x ctx w = (Inr (fst (ask post a p w)), called a, snd (ask post a p w))"
  by (simp add: process_def ask_def called_def Let_def split: prod.splits)

lemma process_raise:
  "build_prompt (role (config a)) x ctx = Inl e \<Longrightarrow>
   process post a x ctx w = (Inl e, called a, w)"
  by (simp add: process_def called_def Let_def)

lemma process_called: "fst (snd (process post a x ctx w)) = called a"
  by (cases "build_prompt (role (config a)) x ctx") (simp_all add: process_raise process_prompt)

lemma generator_phase_wf:
  "role (config (generator self)) = GENERATOR \<Longrightarrow>
   generator_phase post q i (st, self, w) =
     (Inr (fst (ask post (generator self) (generator_prompt q i st) w)), called (generator self),
      snd (ask post (generator self) (generator_prompt q i st) w))"
  by (simp add: generator_phase_def generator_prompt_def process_prompt build_prompt_first build_prompt_later)

lemma critic_phase_wf:
  "role (config (critic self)) = CRITIC \<Longrightarrow>
   critic_phase post q (st, self, w) =
     (Inr (fst (ask post (critic self) (critic_prompt q (generator_output st)) w)), called (critic self),
      snd (ask post (critic self) (critic_prompt q (generator_output st)) w))"
  by (simp add: critic_phase_def process_prompt build_prompt_critic)


lemma loop_body_wf:
  assumes "well_formed self"
  shows "loop_body post q N i (st, self, w) =
    (let G = ask post (generator self) (generator_prompt q i st) w;
         self1 = self\<lparr>generator := called (generator self)\<rparr>;
         st1 = st\<lparr>iteration := i + 1, generator_output := fst G\<rparr>
     in if i < N - 1 then
          (let K = ask post (critic self) (critic_prompt q (fst G)) (snd G);
               self2 = self1\<lparr>critic := called (critic self)\<rparr>;
               st2 = st1\<lparr>critic_feedback := fst K\<rparr>
           in if is_converged (fst K) then (Break, st2\<lparr>converged := True\<rparr>, self2, snd K)
              else (Next, store_history N i st2, self2, snd K))
        else (Next, store_history N i st1, self1, snd G))"
  using assms
  by (simp add: loop_body_def well_formed_def generator_phase_wf critic_phase_wf Let_def generator_prompt_def)

lemma loop_body_cases [consumes 1, case_names last converge continue]:
  assumes "well_formed self"
  obtains
    (last) out w1 where "\<not> i < N - 1"
      "(out, w1) = ask post (generator self) (generator_prompt q i st) w"
      "loop_body post q N i (st, self, w) =
         (Next, st\<lparr>iteration := i + 1, generator_output := out,
                    history := history st @ [\<lparr>h_iteration = i + 1, h_generator_output = out,
                                               h_critic_feedback = None\<rparr>]\<rparr>,
          self\<lparr>generator := called (generator self)\<rparr>, w1)"
  | (converge) out w1 fb w2 where "i < N - 1"
      "(out, w1) = ask post (generator self) (generator_prompt q i st) w"
      "(fb, w2) = ask post (critic self) (critic_prompt q out) w1"
      "is_converged fb"
      "loop_body post q N i (st, self, w) =
         (Break, st\<lparr>iteration := i + 1, generator_output := out, critic_feedback := fb,
                     converged := True\<rparr>,
          self\<lparr>generator := called (generator self), critic := called (critic self)\<rparr>, w2)"
  | (continue) out w1 fb w2 where "i < N - 1"
      "(out, w1) = ask post (generator self) (generator_prompt q i st) w"
      "(fb, w2) = ask post (critic self) (critic_prompt q out) w1"
      "\<not> is_converged fb"
      "loop_body post q N i (st, self, w) =
         (Next, st\<lparr>iteration := i + 1, generator_output := out, critic_feedback := fb,
                    history := history st @ [\<lparr>h_iteration = i + 1, h_generator_output = out,
                                               h_critic_feedback = Some fb\<rparr>]\<rparr>,
          self\<lparr>generator := called (generator self), critic := called (critic self)\<rparr>, w2)"
proof -
  obtain out w1 where G: "(out, w1) = ask post (generator self) (generator_prompt q i st) w"
    by (metis surj_pair)
  obtain fb w2 where K: "(fb, w2) = ask post (critic self) (critic_prompt q out) w1"
    by (metis surj_pair)
  have G': "ask post (generator self) (generator_prompt q i st) w = (out, w1)" using G by simp
  have K': "ask post (critic self) (critic_prompt q out) w1 = (fb, w2)" using K by simp
  show thesis
  proof (cases "i < N - 1")
    case False
    then show thesis
      using last[OF False G] assms by (simp add: loop_body_wf G' store_history_def)
  next
    case True
    show thesis
    proof (cases "is_converged fb")
      case c: True
      show thesis using converge[OF True G K c] assms True c
        by (simp add: loop_body_wf G' K' store_history_def)
    next
      case c: False
      show thesis using continue[OF True G K c] assms True c
        by (simp add: loop_body_wf G' K' store_history_def)
    qed
  qed
qed

lemma well_formed_called [simp]:
  "well_formed (self\<lparr>generator := called (generator self)\<rparr>) = well_formed self"
  "well_formed (self\<lparr>generator := called (generator self), critic := called (critic self)\<rparr>) = well_formed self"
  by (simp_all add: well_formed_def called_def)

lemma called_simps [simp]:
  "config (called a) = config a" "client (called a) = client a"
  "call_count (called a) = call_count a + 1"
  by (simp_all add: called_def)

lemma ask_called [simp]: "ask post (called a) p w = ask post a p w"
  by (simp add: ask_def)

lemma run_loop_done: "\<not> i < N \<Longrightarrow> run_loop post q N i c = (None, c)"
  by (simp add: run_loop.simps)

lemma run_loop_next:
  "i < N \<Longrightarrow> loop_body post q N i c = (Next, c') \<Longrightarrow>
   run_loop post q N i c = run_loop post q N (i + 1) c'"
  by (subst run_loop.simps) simp

lemma run_loop_break:
  "i < N \<Longrightarrow> loop_body post q N i c = (Break, c') \<Longrightarrow> run_loop post q N i c = (None, c')"
  by (subst run_loop.simps) simp

lemma run_loop_summary:
  assumes "well_formed self" "iteration st = i" "\<not> converged st"
  shows "\<exists>st' self' w'. run_loop post q N i (st, self, w) = (None, st', self', w') \<and>
           loop_summary post N i st self st' self'"
  using assms
proof (induction "nat (N - i)" arbitrary: i st self w)
  case 0
  then have "\<not> i < N" by simp
  then show ?case using 0
    by (simp add: run_loop_done loop_summary_def max_def)
next
  case (Suc n)
  then have lt: "i < N" by linarith
  from Suc.prems(1) show ?case
  proof (cases rule: loop_body_cases[where post = post and q = q and N = N and i = i and st = st and w = w])
    case (last out w1)
    then have iN: "i + 1 = N" using lt by simp
    show ?thesis using last lt iN Suc.prems
      by (simp add: run_loop_next[OF lt last(3)] run_loop_done loop_summary_def upto.simps)
  next
    case (converge out w1 fb w2)
    have ex: "\<exists>p w. fb = fst (ask post (critic self) p w)"
      using converge(3) by (metis fst_conv)
    show ?thesis using converge(1,4) lt Suc.prems ex
      by (simp add: run_loop_break[OF lt converge(5)] loop_summary_def upto.simps)
  next
    case (continue out w1 fb w2)
    let ?st1 = "st\<lparr>iteration := i + 1, generator_output := out, critic_feedback := fb,
                    history := history st @ [\<lparr>h_iteration = i + 1, h_generator_output = out,
                                               h_critic_feedback = Some fb\<rparr>]\<rparr>"
    let ?self1 = "self\<lparr>generator := called (generator self), critic := called (critic self)\<rparr>"
    have n: "n = nat (N - (i + 1))" using Suc.hyps(2) by linarith
    have "\<exists>st' self' w'. run_loop post q N (i + 1) (?st1, ?self1, w2) = (None, st', self', w') \<and>
           loop_summary post N (i + 1) ?st1 ?self1 st' self'"
      using Suc.hyps(1)[OF n, of ?self1 ?st1 w2] Suc.prems by simp
    then obtain st' self' w' where
      r: "run_loop post q N (i + 1) (?st1, ?self1, w2) = (None, st', self', w')"
      and s: "loop_summary post N (i + 1) ?st1 ?self1 st' self'" by blast
    let ?r = "\<lparr>h_iteration = i + 1, h_generator_output = out, h_critic_feedback = Some fb\<rparr>"
    from s have facts:
      "well_formed self'"
      "config (generator self') = config (generator self)"
      "client (generator self') = client (generator self)"
      "config (critic self') = config (critic self)"
      "client (critic self') = client (critic self)"
      "coord_client self' = coord_client self"
      "call_count (generator self') = call_count (generator self) + (iteration st' - i)"
      by (simp_all add: loop_summary_def)
    from s have tail:
      "if converged st'
       then i + 1 < iteration st' \<and> iteration st' < N \<and> is_converged (critic_feedback st') \<and>
            (\<exists>p w. critic_feedback st' = fst (ask post (critic self) p w)) \<and>
            call_count (critic self') = call_count (critic self) + 1 + (iteration st' - (i + 1))
       else iteration st' = max (i + 1) N \<and>
            call_count (critic self') = call_count (critic self) + 1 + max 0 (N - 1 - (i + 1))"
      by (simp add: loop_summary_def cong: if_cong)
    from s obtain new where
      h: "history st' = history st @ ?r # new" and
      m: "map h_iteration new = [i + 1 + 1..(if converged st' then iteration st' - 1 else N)]" and
      l: "list_all (\<lambda>r. (h_critic_feedback r = None) = (h_iteration r = N)) new"
      unfolding loop_summary_def by auto
    have le: "i + 1 \<le> (if converged st' then iteration st' - 1 else N)"
      using tail lt by (auto split: if_splits)
    have up: "[i + 1..(if converged st' then iteration st' - 1 else N)] =
              (i + 1) # [i + 1 + 1..(if converged st' then iteration st' - 1 else N)]"
      using le by (subst upto.simps) simp
    have H: "\<exists>new'. history st' = history st @ new' \<and>
               map h_iteration new' = [i + 1..(if converged st' then iteration st' - 1 else N)] \<and>
               list_all (\<lambda>r. (h_critic_feedback r = None) = (h_iteration r = N)) new'"
      apply (rule exI[of _ "?r # new"])
      using h m l continue(1) by (simp add: up)
    have T: "if converged st'
       then i < iteration st' \<and> iteration st' < N \<and> is_converged (critic_feedback st') \<and>
            (\<exists>p w. critic_feedback st' = fst (ask post (critic self) p w)) \<and>
            call_count (critic self') = call_count (critic self) + (iteration st' - i)
       else iteration st' = max i N \<and>
            call_count (critic self') = call_count (critic self) + max 0 (N - 1 - i)"
      using tail lt continue(1) by (auto split: if_splits)
    have "loop_summary post N i st self st' self'"
      unfolding loop_summary_def using facts H T by blast
    then show ?thesis
      using r by (simp add: run_loop_next[OF lt continue(5)])
  qed
qed

lemma well_formed_init: "well_formed (DualAgentCoordinator_init cl)"
  by (simp add: well_formed_def DualAgentCoordinator_init_def Agent_init_def)

lemma well_formed_fresh: "well_formed fresh"
  by (simp add: fresh_def well_formed_init)

lemma run_summary:
  assumes "well_formed self"
  shows "\<exists>st' self' w'.
           run post self q N verbose w =
             (Inr \<lparr>final_response = generator_output st', iterations = iteration st',
                   r_converged = converged st', r_history = history st',
                   generator_calls = call_count (generator self'),
                   critic_calls = call_count (critic self')\<rparr>, self', w') \<and>
           loop_summary post N 0
             \<lparr>user_query = q, generator_output = [], critic_feedback = [], iteration = 0,
              max_iterations = N, history = [], converged = False\<rparr> self st' self'"
proof -
  let ?st = "\<lparr>user_query = q, generator_output = [], critic_feedback = [], iteration = 0,
              max_iterations = N, history = [], converged = False\<rparr>"
  obtain st' self' w' where
    r: "run_loop post q N 0 (?st, self, w) = (None, st', self', w')" and
    s: "loop_summary post N 0 ?st self st' self'"
    using run_loop_summary[OF assms, of ?st 0 post q N w] by auto
  show ?thesis
    using r s by (auto simp add: run_def)
qed

lemma GENERATOR_not_CRITIC: "GENERATOR_SYSTEM_PROMPT \<noteq> CRITIC_SYSTEM_PROMPT"
  by (simp add: GENERATOR_SYSTEM_PROMPT_def CRITIC_SYSTEM_PROMPT_def)

lemma dropWhile_keep: "xs \<noteq> [] \<Longrightarrow> \<not> P (hd xs) \<Longrightarrow> dropWhile P xs = xs"
  by (cases xs) simp_all

lemma strip_plain:
  assumes "s \<noteq> []" "\<not> is_space (hd s)" "\<not> is_space (last s)"
  shows "strip s = s"
proof -
  have 1: "dropWhile is_space s = s"
    using assms by (simp add: dropWhile_keep)
  have 2: "dropWhile is_space (rev s) = rev s"
    using assms by (intro dropWhile_keep) (simp_all add: hd_rev)
  show ?thesis
    by (simp add: strip_def 1 2)
qed

lemma ask_stub_generator:
  "ask (stub_backend a f) (generator fresh) p w = (strip a, w @ [p])"
  by (simp add: ask_def generate_def stub_backend_def fresh_def DualAgentCoordinator_init_def
      Agent_init_def GENERATOR_not_CRITIC)

lemma ask_stub_critic:
  "ask (stub_backend a f) (critic fresh) p w = (strip f, w @ [p])"
  by (simp add: ask_def generate_def stub_backend_def fresh_def DualAgentCoordinator_init_def
      Agent_init_def)

lemma strip_ANSWER: "strip ''ANSWER'' = ''ANSWER''"
  by (simp add: strip_def is_space_def)

lemma is_converged_example: "is_converged ''no significant improvements needed on first call''"
  by (simp add: is_converged_def lower_def to_lower_def convergence_marker_def)

section \<open>Convergence on the first critique (C1)\<close>

text \<open>
  C1. The claim: when the critic's feedback on iteration k (k below max_iterations) holds
  the marker phrase, run stops after iteration k and returns iterations = k, converged =
  true, a history of exactly k records (all with feedback), k generator calls and k critic
  calls. On the example of the specification (query "What is X?", max_iterations 2, the
  generator always answering "ANSWER", the critic always answering "no significant
  improvements needed on first call") the program returns iterations = 1, converged = true
  and one call of each agent, but an empty history: the \<open>break\<close> leaves the loop before
  the statement that stores the record of the pass.
\<close>

theorem C1_example_run_has_empty_history:
  "fst (run (stub_backend ''ANSWER'' ''no significant improvements needed on first call'') fresh
        ''What is X?'' 2 False []) =
     Inr \<lparr>final_response = ''ANSWER'', iterations = 1, r_converged = True, r_history = [],
          generator_calls = 1, critic_calls = 1\<rparr>"
  apply (simp add: run_def run_loop.simps[of _ _ 2 0] loop_body_wf[OF well_formed_fresh]
      ask_stub_generator ask_stub_critic Let_def)
  apply (simp add: strip_def is_space_def is_converged_def lower_def to_lower_def
      convergence_marker_def)
  apply (simp add: fresh_def DualAgentCoordinator_init_def Agent_init_def)
  done

section \<open>A single iteration (C4)\<close>


lemma numbered_history:
  assumes "map h_iteration new = [1..M]"
      and "list_all (\<lambda>r. (h_critic_feedback r = None) = (h_iteration r = N)) new"
  shows "int (length new) = max 0 M"
    and "j < length new \<Longrightarrow> h_iteration (new ! j) = int j + 1"
    and "j < length new \<Longrightarrow> (h_critic_feedback (new ! j) = None) = (int j + 1 = N)"
proof -
  have "length (map h_iteration new) = length [1..M]"
    using assms(1) by simp
  then show len: "int (length new) = max 0 M"
    by simp
  show it: "h_iteration (new ! j) = int j + 1" if "j < length new"
  proof -
    have "h_iteration (new ! j) = map h_iteration new ! j"
      using that by simp
    also have "\<dots> = [1..M] ! j"
      using assms(1) by simp
    also have "\<dots> = 1 + int j"
      using that len by (intro nth_upto) simp
    finally show ?thesis by simp
  qed
  show "(h_critic_feedback (new ! j) = None) = (int j + 1 = N)" if "j < length new"
    using assms(2) that it[OF that] by (simp add: list_all_length)
qed

section \<open>Exhausting the iteration budget (C3)\<close>


lemma is_converged_needs_work: "\<not> is_converged ''needs work''"
  by (simp add: is_converged_def lower_def to_lower_def convergence_marker_def)

lemma strip_needs_work: "strip ''needs work'' = ''needs work''"
  by (simp add: strip_def is_space_def)


section \<open>The state at the end of a run (C2)\<close>





section \<open>The backend client (C7)\<close>






section \<open>The critic needs its context (C10)\<close>

text \<open>
  C10. process on an agent of role CRITIC fails with an exception instead of returning
  text when it is called with no context (subscripting None: TypeError) or with a context
  that has no key 'query' (KeyError), although the signature gives context the default
  None; the counter has been incremented and no request has been sent. The coordinator
  avoids this: its critic phase always passes a context holding the query, and returns
  text.
\<close>

theorem C10_critic_needs_query:
  "(role (config a) = CRITIC \<longrightarrow>
      process post a x None w = (Inl TypeError, called a, w)) \<and>
   (role (config a) = CRITIC \<and> map_of d ''query'' = None \<longrightarrow>
      process post a x (Some d) w = (Inl (KeyError ''query''), called a, w)) \<and>
   (role (config (critic self)) = CRITIC \<longrightarrow>
      critic_phase post q (st, self, w) =
        (Inr (fst (ask post (critic self) (critic_prompt q (generator_output st)) w)),
         called (critic self),
         snd (ask post (critic self) (critic_prompt q (generator_output st)) w)))"
proof (intro conjI impI)
  assume "role (config a) = CRITIC"
  then show "process post a x None w = (Inl TypeError, called a, w)"
    by (intro process_raise) (simp add: build_prompt_def subscript_def)
next
  assume "role (config a) = CRITIC \<and> map_of d ''query'' = None"
  then show "process post a x (Some d) w = (Inl (KeyError ''query''), called a, w)"
    by (intro process_raise) (simp add: build_prompt_def subscript_def)
next
  assume "role (config (critic self)) = CRITIC"
  then show "critic_phase post q (st, self, w) =
        (Inr (fst (ask post (critic self) (critic_prompt q (generator_output st)) w)),
         called (critic self),
         snd (ask post (critic self) (critic_prompt q (generator_output st)) w))"
    by (rule critic_phase_wf)
qed

theorem C10_critic_needs_query_witness:
  "role (config (critic fresh)) = CRITIC \<and> map_of [(''topic'', ''X'')] ''query'' = None \<and>
   process (stub_backend ''ANSWER'' ''needs work'') (critic fresh) ''ANSWER'' None [] =
     (Inl TypeError, called (critic fresh), []) \<and>
   process (stub_backend ''ANSWER'' ''needs work'') (critic fresh) ''ANSWER''
       (Some [(''topic'', ''X'')]) [] =
     (Inl (KeyError ''query''), called (critic fresh), []) \<and>
   fst (critic_phase (stub_backend ''ANSWER'' ''needs work'') ''What is X?''
         (\<lparr>user_query = ''What is X?'', generator_output = ''ANSWER'', critic_feedback = [],
           iteration = 1, max_iterations = 2, history = [], converged = False\<rparr>, fresh, [])) =
     Inr ''needs work''"
proof -
  have r: "role (config (critic fresh)) = CRITIC"
    using well_formed_fresh by (simp add: well_formed_def)
  have m: "map_of [(''topic'', ''X'')] ''query'' = (None :: string option)"
    by simp
  note C = C10_critic_needs_query[where post = "stub_backend ''ANSWER'' ''needs work''"
      and a = "critic fresh" and self = fresh and w = "[]" and x = "''ANSWER''"
      and d = "[(''topic'', ''X'')]" and q = "''What is X?''"
      and st = "\<lparr>user_query = ''What is X?'', generator_output = ''ANSWER'', critic_feedback = [],
           iteration = 1, max_iterations = 2, history = [], converged = False\<rparr>"]
  show ?thesis
    using C r m by (simp add: ask_stub_critic strip_needs_work)
qed

section \<open>Empty feedback (C9)\<close>

lemma strip_all_space:
  assumes "\<forall>c \<in> set t. is_space c"
  shows "strip t = []"
proof -
  have d: "dropWhile is_space t = []"
    using assms by simp
  show ?thesis
    unfolding strip_def d by simp
qed

lemma strip_Nil: "strip [] = []"
  by (simp add: strip_def)

text \<open>
  C9. When the feedback carried over from the previous iteration is the empty string, the
  generator's call of a later iteration, although it passes a context, builds the plain
  first-call prompt from the query alone: the call is the very call process makes with no
  context, and neither the previous answer nor the feedback reaches the prompt. An empty
  feedback is what generate returns for an HTTP 200 whose response field is missing or
  holds only whitespace.
\<close>

theorem C9_empty_feedback_first_prompt:
  "(role (config (generator self)) = GENERATOR \<and> critic_feedback st = [] \<and> i \<noteq> 0 \<longrightarrow>
      build_prompt (role (config (generator self))) q (Some (generator_context q st)) =
        Inr (first_prompt q) \<and>
      generator_phase post q i (st, self, w) = generator_phase post q 0 (st, self, w) \<and>
      generator_phase post q i (st, self, w) =
        (Inr (fst (ask post (generator self) (first_prompt q) w)), called (generator self),
         snd (ask post (generator self) (first_prompt q) w))) \<and>
   (post (api_endpoint (client a))
        \<lparr>p_model = model (config a), p_prompt = p, p_system = system_prompt (config a),
         p_stream = False, p_temperature = temperature (config a)\<rparr> w = (Reply 200 (Json f), w') \<and>
    (f = None \<or> (\<exists>t. f = Some t \<and> (\<forall>c \<in> set t. is_space c))) \<longrightarrow>
      ask post a p w = ([], w'))"
proof (intro conjI impI)
  assume a: "role (config (generator self)) = GENERATOR \<and> critic_feedback st = [] \<and> i \<noteq> 0"
  then show "build_prompt (role (config (generator self))) q (Some (generator_context q st)) =
        Inr (first_prompt q)"
    by (simp add: build_prompt_later)
  from a show "generator_phase post q i (st, self, w) = generator_phase post q 0 (st, self, w)"
    by (simp add: generator_phase_wf generator_prompt_def)
  from a show "generator_phase post q i (st, self, w) =
        (Inr (fst (ask post (generator self) (first_prompt q) w)), called (generator self),
         snd (ask post (generator self) (first_prompt q) w))"
    by (simp add: generator_phase_wf generator_prompt_def)
next
  assume "post (api_endpoint (client a))
        \<lparr>p_model = model (config a), p_prompt = p, p_system = system_prompt (config a),
         p_stream = False, p_temperature = temperature (config a)\<rparr> w = (Reply 200 (Json f), w') \<and>
    (f = None \<or> (\<exists>t. f = Some t \<and> (\<forall>c \<in> set t. is_space c)))"
  then show "ask post a p w = ([], w')"
    by (auto simp add: ask_def generate_def strip_all_space strip_Nil)
qed

theorem C9_empty_feedback_first_prompt_witness:
  "role (config (generator fresh)) = GENERATOR \<and>
   generator_phase (stub_backend ''ANSWER'' ''   '') ''What is X?'' 1
     (\<lparr>user_query = ''What is X?'', generator_output = ''ANSWER'', critic_feedback = [],
       iteration = 2, max_iterations = 3, history = [], converged = False\<rparr>, fresh,
      [first_prompt ''What is X?'', critic_prompt ''What is X?'' ''ANSWER'']) =
     (Inr ''ANSWER'', called (generator fresh),
      [first_prompt ''What is X?'', critic_prompt ''What is X?'' ''ANSWER'',
       first_prompt ''What is X?'']) \<and>
   ask (stub_backend ''ANSWER'' ''   '') (critic fresh) (critic_prompt ''What is X?'' ''ANSWER'')
       [first_prompt ''What is X?''] =
     ([], [first_prompt ''What is X?'', critic_prompt ''What is X?'' ''ANSWER''])"
proof -
  let ?post = "stub_backend ''ANSWER'' ''   ''"
  let ?st = "\<lparr>user_query = ''What is X?'', generator_output = ''ANSWER'', critic_feedback = [],
       iteration = 2, max_iterations = 3, history = [], converged = False\<rparr>"
  have r: "role (config (generator fresh)) = GENERATOR"
    using well_formed_fresh by (simp add: well_formed_def)
  have e: "critic_feedback ?st = []" "(1::int) \<noteq> 0"
    by simp_all
  have sp: "\<forall>c \<in> set ''   ''. is_space c"
    by (simp add: is_space_def)
  have reply: "?post (api_endpoint (client (critic fresh)))
        \<lparr>p_model = model (config (critic fresh)),
         p_prompt = critic_prompt ''What is X?'' ''ANSWER'',
         p_system = system_prompt (config (critic fresh)),
         p_stream = False, p_temperature = temperature (config (critic fresh))\<rparr>
        [first_prompt ''What is X?''] =
      (Reply 200 (Json (Some ''   '')),
       [first_prompt ''What is X?'', critic_prompt ''What is X?'' ''ANSWER''])"
    by (simp add: stub_backend_def fresh_def DualAgentCoordinator_init_def Agent_init_def)
  note C = C9_empty_feedback_first_prompt[where post = ?post and self = fresh and st = ?st
      and i = 1 and q = "''What is X?''" and a = "critic fresh"
      and p = "critic_prompt ''What is X?'' ''ANSWER''" and f = "Some ''   ''"
      and w' = "[first_prompt ''What is X?'', critic_prompt ''What is X?'' ''ANSWER'']"]
  have 1: "generator_phase ?post ''What is X?'' 1
        (?st, fresh, [first_prompt ''What is X?'', critic_prompt ''What is X?'' ''ANSWER'']) =
      (Inr (fst (ask ?post (generator fresh) (first_prompt ''What is X?'')
                 [first_prompt ''What is X?'', critic_prompt ''What is X?'' ''ANSWER''])),
       called (generator fresh),
       snd (ask ?post (generator fresh) (first_prompt ''What is X?'')
                 [first_prompt ''What is X?'', critic_prompt ''What is X?'' ''ANSWER'']))"
    using C[where w = "[first_prompt ''What is X?'', critic_prompt ''What is X?'' ''ANSWER'']"] r e
    by blast
  have 2: "ask ?post (critic fresh) (critic_prompt ''What is X?'' ''ANSWER'')
        [first_prompt ''What is X?''] =
      ([], [first_prompt ''What is X?'', critic_prompt ''What is X?'' ''ANSWER''])"
    using C[where w = "[first_prompt ''What is X?'']"] reply sp by blast
  show ?thesis
    using r 1 2 by (simp add: ask_stub_generator strip_ANSWER)
qed

section \<open>The counters outlive a run (C8)\<close>

lemma run_counts:
  assumes "well_formed self" and "run post self q N verbose w = (Inr res, self', w')"
  shows "well_formed self'"
    and "generator_calls res = call_count (generator self')"
    and "critic_calls res = call_count (critic self')"
    and "call_count (generator self') = call_count (generator self) + iterations res"
    and "call_count (critic self') =
           call_count (critic self) + (if r_converged res then iterations res else max 0 (N - 1))"
proof -
  let ?st = "\<lparr>user_query = q, generator_output = [], critic_feedback = [], iteration = 0,
              max_iterations = N, history = [], converged = False\<rparr>"
  obtain st' s' v' where
    r: "run post self q N verbose w =
          (Inr \<lparr>final_response = generator_output st', iterations = iteration st',
                r_converged = converged st', r_history = history st',
                generator_calls = call_count (generator s'),
                critic_calls = call_count (critic s')\<rparr>, s', v')" and
    s: "loop_summary post N 0 ?st self st' s'"
    using run_summary[OF assms(1), of post q N verbose w] by blast
  from r assms(2) have eq: "s' = self'"
    "res = \<lparr>final_response = generator_output st', iterations = iteration st',
                r_converged = converged st', r_history = history st',
                generator_calls = call_count (generator s'),
                critic_calls = call_count (critic s')\<rparr>"
    by simp_all
  show "well_formed self'" using s eq by (simp add: loop_summary_def)
  show "generator_calls res = call_count (generator self')" using eq by simp
  show "critic_calls res = call_count (critic self')" using eq by simp
  show "call_count (generator self') = call_count (generator self) + iterations res"
    using s eq by (simp add: loop_summary_def)
  show "call_count (critic self') =
           call_count (critic self) + (if r_converged res then iterations res else max 0 (N - 1))"
    using s eq by (simp add: loop_summary_def)
qed

text \<open>
  C8. generator_calls and critic_calls in the result of run are the agents' lifetime
  counters: every call of process adds one, and run never resets them. So the counts
  returned by a second run on the same coordinator are those returned by the first run
  plus the calls of the second: one generator call for each of its iterations, and one
  critic call for each iteration if it converged, for each but the last otherwise.
\<close>

theorem C8_lifetime_counters:
  "call_count (fst (snd (process post a x ctx w0))) = call_count a + 1 \<and>
   (well_formed self \<and> run post self q1 N1 v1 w = (Inr r1, self1, w1) \<and>
    run post self1 q2 N2 v2 w1 = (Inr r2, self2, w2) \<longrightarrow>
      generator_calls r1 = call_count (generator self1) \<and>
      critic_calls r1 = call_count (critic self1) \<and>
      generator_calls r1 = call_count (generator self) + iterations r1 \<and>
      generator_calls r2 = generator_calls r1 + iterations r2 \<and>
      critic_calls r2 =
        critic_calls r1 + (if r_converged r2 then iterations r2 else max 0 (N2 - 1)))"
proof (intro conjI impI)
  show "call_count (fst (snd (process post a x ctx w0))) = call_count a + 1"
    by (simp add: process_called)
next
  assume h: "well_formed self \<and> run post self q1 N1 v1 w = (Inr r1, self1, w1) \<and>
    run post self1 q2 N2 v2 w1 = (Inr r2, self2, w2)"
  then have wf: "well_formed self" and r1: "run post self q1 N1 v1 w = (Inr r1, self1, w1)"
    and r2: "run post self1 q2 N2 v2 w1 = (Inr r2, self2, w2)"
    by simp_all
  note a = run_counts[OF wf r1]
  note b = run_counts[OF a(1) r2]
  show "generator_calls r1 = call_count (generator self1)" by (rule a(2))
  show "critic_calls r1 = call_count (critic self1)" by (rule a(3))
  show "generator_calls r1 = call_count (generator self) + iterations r1"
    using a(2,4) by simp
  show "generator_calls r2 = generator_calls r1 + iterations r2"
    using a(2) b(2,4) by simp
  show "critic_calls r2 =
        critic_calls r1 + (if r_converged r2 then iterations r2 else max 0 (N2 - 1))"
    using a(3) b(3,5) by simp
qed

lemmas run_eval =
  run_def run_loop.simps loop_body_wf well_formed_def fresh_def DualAgentCoordinator_init_def
  Agent_init_def called_def Let_def store_history_def generator_prompt_def
  strip_def is_space_def is_converged_def lower_def to_lower_def convergence_marker_def
  char_of_def bit_Suc_0_iff

theorem C8_lifetime_counters_witness:
  "well_formed fresh \<and>
   (\<exists>r1 self1 w1 r2 self2 w2.
      run (stub_backend ''ANSWER'' ''needs work'') fresh ''What is X?'' 2 False [] =
        (Inr r1, self1, w1) \<and>
      run (stub_backend ''ANSWER'' ''needs work'') self1 ''What is Y?'' 3 False w1 =
        (Inr r2, self2, w2) \<and>
      generator_calls r1 = 2 \<and> critic_calls r1 = 1 \<and> iterations r2 = 3 \<and> \<not> r_converged r2 \<and>
      generator_calls r2 = 5 \<and> critic_calls r2 = 3)"
proof -
  let ?post = "stub_backend ''ANSWER'' ''needs work''"
  obtain r1 self1 w1 where
    1: "run ?post fresh ''What is X?'' 2 False [] = (Inr r1, self1, w1)" and
    g1: "generator_calls r1 = 2" and c1: "critic_calls r1 = 1" and
    s1: "self1 = fresh\<lparr>generator := (generator fresh)\<lparr>call_count := 2\<rparr>,
                       critic := (critic fresh)\<lparr>call_count := 1\<rparr>\<rparr>"
    by (simp add: run_eval ask_def generate_def stub_backend_def GENERATOR_not_CRITIC)
  obtain r2 self2 w2 where
    2: "run ?post self1 ''What is Y?'' 3 False w1 = (Inr r2, self2, w2)" and
    i2: "iterations r2 = 3" and n2: "\<not> r_converged r2"
    unfolding s1
    by (simp add: run_eval ask_def generate_def stub_backend_def GENERATOR_not_CRITIC)
  have "generator_calls r2 = generator_calls r1 + iterations r2 \<and>
        critic_calls r2 =
          critic_calls r1 + (if r_converged r2 then iterations r2 else max 0 (3 - 1))"
    using C8_lifetime_counters[where post = ?post and self = fresh and ?q1.0 = "''What is X?''"
        and ?N1.0 = 2 and ?v1.0 = False and w = "[]" and ?r1.0 = r1 and ?self1.0 = self1
        and ?w1.0 = w1 and ?q2.0 = "''What is Y?''" and ?N2.0 = 3 and ?v2.0 = False and ?r2.0 = r2
        and ?self2.0 = self2 and ?w2.0 = w2] well_formed_fresh 1 2
    by blast
  then have "generator_calls r2 = 5" "critic_calls r2 = 3"
    using g1 c1 i2 n2 by simp_all
  then show ?thesis
    using well_formed_fresh 1 2 g1 c1 i2 n2 by blast
qed

section \<open>Backend failures are text (C6)\<close>





section \<open>The context of a refinement pass (C5)\<close>

lemma contains_prefix: "contains (s @ b) s"
proof (cases "s @ b")
  case Nil
  then show ?thesis by simp
next
  case (Cons c cs)
  have "prefix s (s @ b)" by simp
  then show ?thesis using Cons by simp
qed

lemma contains_infix: "contains (a @ s @ b) s"
  by (induction a) (simp_all add: contains_prefix)

lemma improve_prompt_embeds:
  "contains (improve_prompt q answer feedback) answer"
  "contains (improve_prompt q answer feedback) feedback"
proof -
  have "improve_prompt q answer feedback =
          (''Original Query: '' @ q @ NL @ NL @ ''Previous Response:'' @ NL) @ answer @
          (NL @ NL @ ''Feedback from Critic:'' @ NL @ feedback @ NL @ NL @
           ''Please provide an improved response that addresses the feedback while maintaining quality.'')"
    by (simp add: improve_prompt_def)
  then show "contains (improve_prompt q answer feedback) answer"
    by (simp only: contains_infix)
  have "improve_prompt q answer feedback =
          (''Original Query: '' @ q @ NL @ NL @ ''Previous Response:'' @ NL @ answer @
           NL @ NL @ ''Feedback from Critic:'' @ NL) @ feedback @
          (NL @ NL @
           ''Please provide an improved response that addresses the feedback while maintaining quality.'')"
    by (simp add: improve_prompt_def)
  then show "contains (improve_prompt q answer feedback) feedback"
    by (simp only: contains_infix)
qed

text \<open>
  C5. The claim: on every iteration after the first, the context passed to the generator
  holds exactly the query with the answer and the feedback of the iteration just before
  (not an aggregate of the earlier ones), and the generator's prompt embeds that answer
  and that feedback verbatim.

  The prompt embeds them only when the feedback is not empty: process tests
  \<open>context.get('feedback')\<close>, and for an empty feedback it builds the first-call prompt,
  which holds neither. As amended: whenever a pass of the loop falls through to the next
  one, the generator's call of the next pass is process with the context made of exactly
  the query, the answer that the generator's call of this pass returned and the feedback
  that the critic's call of this pass returned; when that feedback is not the empty
  string the prompt is the improvement prompt, which embeds that answer and that feedback
  verbatim, and when it is empty the prompt is the first-call prompt built from the query
  alone.
\<close>

theorem C5_context_is_previous_pair:
  "well_formed self \<and> 0 \<le> i \<and> i < N - 1 \<and>
   loop_body post q N i (st, self, w) = (Next, st', self', w') \<longrightarrow>
     (\<exists>answer feedback g w1 k.
        generator_phase post q i (st\<lparr>iteration := i + 1\<rparr>, self, w) = (Inr answer, g, w1) \<and>
        critic_phase post q
          (st\<lparr>iteration := i + 1, generator_output := answer\<rparr>, self\<lparr>generator := g\<rparr>, w1) =
          (Inr feedback, k, w') \<and>
        self' = self\<lparr>generator := g, critic := k\<rparr> \<and>
        generator_context q (st'\<lparr>iteration := i + 1 + 1\<rparr>) =
          [(''query'', q), (''previous_response'', answer), (''feedback'', feedback)] \<and>
        generator_phase post q (i + 1) (st'\<lparr>iteration := i + 1 + 1\<rparr>, self', w') =
          process post (generator self') q
            (Some [(''query'', q), (''previous_response'', answer), (''feedback'', feedback)]) w' \<and>
        (feedback \<noteq> [] \<longrightarrow>
           generator_phase post q (i + 1) (st'\<lparr>iteration := i + 1 + 1\<rparr>, self', w') =
             (Inr (fst (ask post (generator self') (improve_prompt q answer feedback) w')),
              called (generator self'),
              snd (ask post (generator self') (improve_prompt q answer feedback) w')) \<and>
           contains (improve_prompt q answer feedback) answer \<and>
           contains (improve_prompt q answer feedback) feedback) \<and>
        (feedback = [] \<longrightarrow>
           generator_phase post q (i + 1) (st'\<lparr>iteration := i + 1 + 1\<rparr>, self', w') =
             (Inr (fst (ask post (generator self') (first_prompt q) w')),
              called (generator self'),
              snd (ask post (generator self') (first_prompt q) w'))))"
proof
  assume h: "well_formed self \<and> 0 \<le> i \<and> i < N - 1 \<and>
   loop_body post q N i (st, self, w) = (Next, st', self', w')"
  then have wf: "well_formed self" and i: "0 \<le> i" "i < N - 1"
    and b: "loop_body post q N i (st, self, w) = (Next, st', self', w')"
    by simp_all
  from wf have rg: "role (config (generator self)) = GENERATOR"
    and rc: "role (config (critic self)) = CRITIC"
    by (simp_all add: well_formed_def)
  define A where "A = fst (ask post (generator self) (generator_prompt q i st) w)"
  define w1 where "w1 = snd (ask post (generator self) (generator_prompt q i st) w)"
  define F where "F = fst (ask post (critic self) (critic_prompt q A) w1)"
  define w2 where "w2 = snd (ask post (critic self) (critic_prompt q A) w1)"
  let ?g = "called (generator self)" and ?k = "called (critic self)"
  have gp: "generator_phase post q i (st\<lparr>iteration := i + 1\<rparr>, self, w) = (Inr A, ?g, w1)"
    using rg by (simp add: generator_phase_wf generator_prompt_def A_def w1_def)
  have cp: "critic_phase post q
          (st\<lparr>iteration := i + 1, generator_output := A\<rparr>, self\<lparr>generator := ?g\<rparr>, w1) =
          (Inr F, ?k, w2)"
    using rc by (simp add: critic_phase_wf F_def w2_def)
  have body: "loop_body post q N i (st, self, w) =
      (if is_converged F
       then (Break, st\<lparr>iteration := i + 1, generator_output := A, critic_feedback := F,
                       converged := True\<rparr>, self\<lparr>generator := ?g, critic := ?k\<rparr>, w2)
       else (Next, store_history N i
                     (st\<lparr>iteration := i + 1, generator_output := A, critic_feedback := F\<rparr>),
             self\<lparr>generator := ?g, critic := ?k\<rparr>, w2))"
    using wf i by (simp add: loop_body_wf Let_def A_def w1_def F_def w2_def)
  from b have nc: "\<not> is_converged F"
    unfolding body by (auto split: if_splits)
  from b nc have st': "st' = store_history N i
        (st\<lparr>iteration := i + 1, generator_output := A, critic_feedback := F\<rparr>)"
    and self': "self' = self\<lparr>generator := ?g, critic := ?k\<rparr>" and w': "w' = w2"
    unfolding body by simp_all
  have go: "generator_output st' = A" and cf: "critic_feedback st' = F"
    by (simp_all add: st' store_history_def)
  have ctx: "generator_context q (st'\<lparr>iteration := i + 1 + 1\<rparr>) =
          [(''query'', q), (''previous_response'', A), (''feedback'', F)]"
    by (simp add: generator_context_def go cf)
  have rg': "role (config (generator self')) = GENERATOR"
    using rg by (simp add: self')
  have ne: "i + 1 \<noteq> 0" using i by simp
  have ph: "generator_phase post q (i + 1) (st'\<lparr>iteration := i + 1 + 1\<rparr>, self', w') =
          process post (generator self') q
            (Some [(''query'', q), (''previous_response'', A), (''feedback'', F)]) w'"
    using ne ctx by (simp add: generator_phase_def)
  have gpr: "generator_prompt q (i + 1) (st'\<lparr>iteration := i + 1 + 1\<rparr>) =
      (if F = [] then first_prompt q else improve_prompt q A F)"
    using ne by (simp add: generator_prompt_def go cf)
  have ph2: "generator_phase post q (i + 1) (st'\<lparr>iteration := i + 1 + 1\<rparr>, self', w') =
      (Inr (fst (ask post (generator self')
                   (if F = [] then first_prompt q else improve_prompt q A F) w')),
       called (generator self'),
       snd (ask post (generator self')
                   (if F = [] then first_prompt q else improve_prompt q A F) w'))"
    using generator_phase_wf[OF rg', of post q "i + 1" "st'\<lparr>iteration := i + 1 + 1\<rparr>" w']
    unfolding gpr .
  have full: "F \<noteq> [] \<longrightarrow>
           generator_phase post q (i + 1) (st'\<lparr>iteration := i + 1 + 1\<rparr>, self', w') =
             (Inr (fst (ask post (generator self') (improve_prompt q A F) w')),
              called (generator self'),
              snd (ask post (generator self') (improve_prompt q A F) w')) \<and>
           contains (improve_prompt q A F) A \<and>
           contains (improve_prompt q A F) F"
    using ph2 by (simp add: improve_prompt_embeds)
  have empty: "F = [] \<longrightarrow>
           generator_phase post q (i + 1) (st'\<lparr>iteration := i + 1 + 1\<rparr>, self', w') =
             (Inr (fst (ask post (generator self') (first_prompt q) w')),
              called (generator self'),
              snd (ask post (generator self') (first_prompt q) w'))"
    using ph2 by simp
  show "\<exists>answer feedback g w1 k.
        generator_phase post q i (st\<lparr>iteration := i + 1\<rparr>, self, w) = (Inr answer, g, w1) \<and>
        critic_phase post q
          (st\<lparr>iteration := i + 1, generator_output := answer\<rparr>, self\<lparr>generator := g\<rparr>, w1) =
          (Inr feedback, k, w') \<and>
        self' = self\<lparr>generator := g, critic := k\<rparr> \<and>
        generator_context q (st'\<lparr>iteration := i + 1 + 1\<rparr>) =
          [(''query'', q), (''previous_response'', answer), (''feedback'', feedback)] \<and>
        generator_phase post q (i + 1) (st'\<lparr>iteration := i + 1 + 1\<rparr>, self', w') =
          process post (generator self') q
            (Some [(''query'', q), (''previous_response'', answer), (''feedback'', feedback)]) w' \<and>
        (feedback \<noteq> [] \<longrightarrow>
           generator_phase post q (i + 1) (st'\<lparr>iteration := i + 1 + 1\<rparr>, self', w') =
             (Inr (fst (ask post (generator self') (improve_prompt q answer feedback) w')),
              called (generator self'),
              snd (ask post (generator self') (improve_prompt q answer feedback) w')) \<and>
           contains (improve_prompt q answer feedback) answer \<and>
           contains (improve_prompt q answer feedback) feedback) \<and>
        (feedback = [] \<longrightarrow>
           generator_phase post q (i + 1) (st'\<lparr>iteration := i + 1 + 1\<rparr>, self', w') =
             (Inr (fst (ask post (generator self') (first_prompt q) w')),
              called (generator self'),
              snd (ask post (generator self') (first_prompt q) w')))"
    apply (rule exI[of _ A], rule exI[of _ F], rule exI[of _ ?g],
        rule exI[of _ w1], rule exI[of _ ?k])
    using gp cp self' ctx ph full empty unfolding w'
    by blast
qed

theorem C5_empty_feedback_counterexample:
  "run (stub_backend ''ANSWER'' ''   '') fresh ''What is X?'' 2 False [] =
     (Inr \<lparr>final_response = ''ANSWER'', iterations = 2, r_converged = False,
           r_history =
             [\<lparr>h_iteration = 1, h_generator_output = ''ANSWER'', h_critic_feedback = Some []\<rparr>,
              \<lparr>h_iteration = 2, h_generator_output = ''ANSWER'', h_critic_feedback = None\<rparr>],
           generator_calls = 2, critic_calls = 1\<rparr>,
      fresh\<lparr>generator := (generator fresh)\<lparr>call_count := 2\<rparr>,
            critic := (critic fresh)\<lparr>call_count := 1\<rparr>\<rparr>,
      [first_prompt ''What is X?'', critic_prompt ''What is X?'' ''ANSWER'',
       first_prompt ''What is X?'']) \<and>
   \<not> contains (first_prompt ''What is X?'') ''ANSWER''"
proof
  show "run (stub_backend ''ANSWER'' ''   '') fresh ''What is X?'' 2 False [] =
     (Inr \<lparr>final_response = ''ANSWER'', iterations = 2, r_converged = False,
           r_history =
             [\<lparr>h_iteration = 1, h_generator_output = ''ANSWER'', h_critic_feedback = Some []\<rparr>,
              \<lparr>h_iteration = 2, h_generator_output = ''ANSWER'', h_critic_feedback = None\<rparr>],
           generator_calls = 2, critic_calls = 1\<rparr>,
      fresh\<lparr>generator := (generator fresh)\<lparr>call_count := 2\<rparr>,
            critic := (critic fresh)\<lparr>call_count := 1\<rparr>\<rparr>,
      [first_prompt ''What is X?'', critic_prompt ''What is X?'' ''ANSWER'',
       first_prompt ''What is X?''])"
    by (simp add: run_eval ask_def generate_def stub_backend_def GENERATOR_not_CRITIC)
  show "\<not> contains (first_prompt ''What is X?'') ''ANSWER''"
    by (simp add: first_prompt_def NL_def)
qed

theorem C5_context_is_previous_pair_witness:
  "well_formed fresh \<and> (0::int) \<le> 0 \<and> (0::int) < 3 - 1 \<and>
   loop_body (stub_backend ''ANSWER'' ''needs work'') ''What is X?'' 3 0
     (\<lparr>user_query = ''What is X?'', generator_output = [], critic_feedback = [], iteration = 0,
       max_iterations = 3, history = [], converged = False\<rparr>, fresh, []) =
     (Next,
      \<lparr>user_query = ''What is X?'', generator_output = ''ANSWER'',
       critic_feedback = ''needs work'', iteration = 1, max_iterations = 3,
       history = [\<lparr>h_iteration = 1, h_generator_output = ''ANSWER'',
                   h_critic_feedback = Some ''needs work''\<rparr>],
       converged = False\<rparr>,
      fresh\<lparr>generator := called (generator fresh), critic := called (critic fresh)\<rparr>,
      [first_prompt ''What is X?'', critic_prompt ''What is X?'' ''ANSWER'']) \<and>
   generator_phase (stub_backend ''ANSWER'' ''needs work'') ''What is X?'' (0 + 1)
     (\<lparr>user_query = ''What is X?'', generator_output = ''ANSWER'',
       critic_feedback = ''needs work'', iteration = 0 + 1 + 1, max_iterations = 3,
       history = [\<lparr>h_iteration = 1, h_generator_output = ''ANSWER'',
                   h_critic_feedback = Some ''needs work''\<rparr>],
       converged = False\<rparr>,
      fresh\<lparr>generator := called (generator fresh), critic := called (critic fresh)\<rparr>,
      [first_prompt ''What is X?'', critic_prompt ''What is X?'' ''ANSWER'']) =
     process (stub_backend ''ANSWER'' ''needs work'') (called (generator fresh)) ''What is X?''
       (Some [(''query'', ''What is X?''), (''previous_response'', ''ANSWER''),
              (''feedback'', ''needs work'')])
       [first_prompt ''What is X?'', critic_prompt ''What is X?'' ''ANSWER'']"
proof -
  let ?post = "stub_backend ''ANSWER'' ''needs work''"
  let ?st = "\<lparr>user_query = ''What is X?'', generator_output = [], critic_feedback = [],
       iteration = 0, max_iterations = 3, history = [], converged = False\<rparr>"
  let ?st' = "\<lparr>user_query = ''What is X?'', generator_output = ''ANSWER'',
       critic_feedback = ''needs work'', iteration = 1, max_iterations = 3,
       history = [\<lparr>h_iteration = 1, h_generator_output = ''ANSWER'',
                   h_critic_feedback = Some ''needs work''\<rparr>],
       converged = False\<rparr>"
  let ?self' = "fresh\<lparr>generator := called (generator fresh), critic := called (critic fresh)\<rparr>"
  let ?w' = "[first_prompt ''What is X?'', critic_prompt ''What is X?'' ''ANSWER'']"
  have b: "loop_body ?post ''What is X?'' 3 0 (?st, fresh, []) = (Next, ?st', ?self', ?w')"
    by (simp add: loop_body_wf[OF well_formed_fresh] Let_def ask_stub_generator ask_stub_critic
        strip_ANSWER strip_needs_work is_converged_needs_work store_history_def
        generator_prompt_def)
  have gp: "generator_phase ?post ''What is X?'' 0 (?st\<lparr>iteration := 0 + 1\<rparr>, fresh, []) =
              (Inr ''ANSWER'', called (generator fresh), [first_prompt ''What is X?''])"
    using well_formed_fresh
    by (simp add: generator_phase_wf well_formed_def ask_stub_generator strip_ANSWER
        generator_prompt_def)
  have cp: "critic_phase ?post ''What is X?''
              (?st\<lparr>iteration := 0 + 1, generator_output := ''ANSWER''\<rparr>,
               fresh\<lparr>generator := g\<rparr>, [first_prompt ''What is X?'']) =
              (Inr ''needs work'', called (critic fresh), ?w')" for g
    using well_formed_fresh
    by (simp add: critic_phase_wf well_formed_def ask_stub_critic strip_needs_work)
  have lt: "(0::int) < 3 - 1" by simp
  obtain answer feedback g w1 k where
    1: "generator_phase ?post ''What is X?'' 0 (?st\<lparr>iteration := 0 + 1\<rparr>, fresh, []) =
          (Inr answer, g, w1)" and
    2: "critic_phase ?post ''What is X?''
          (?st\<lparr>iteration := 0 + 1, generator_output := answer\<rparr>, fresh\<lparr>generator := g\<rparr>, w1) =
          (Inr feedback, k, ?w')" and
    3: "generator_phase ?post ''What is X?'' (0 + 1) (?st'\<lparr>iteration := 0 + 1 + 1\<rparr>, ?self', ?w') =
          process ?post (generator ?self') ''What is X?''
            (Some [(''query'', ''What is X?''), (''previous_response'', answer),
                   (''feedback'', feedback)]) ?w'"
    using C5_context_is_previous_pair[where self = fresh and i = 0 and N = 3 and post = ?post
        and q = "''What is X?''" and st = ?st and w = "[]" and st' = ?st' and self' = ?self'
        and w' = ?w', THEN mp, OF conjI[OF well_formed_fresh conjI[OF order_refl conjI[OF lt b]]]]
    by blast
  from 1 gp have a: "answer = ''ANSWER''" "g = called (generator fresh)"
    "w1 = [first_prompt ''What is X?'']"
    by simp_all
  from 2 cp[of g] have f: "feedback = ''needs work''"
    unfolding a by simp
  show ?thesis
    using well_formed_fresh b 3 unfolding a f by simp
qed

section \<open>Converged runs in general\<close>

text \<open>
  In general: a run that converges returns a history one record short of its iteration
  count, since the pass that converged stored none.
\<close>

lemma converged_run_history_short:
  assumes "well_formed self" and "run post self q N verbose w = (Inr res, self', w')"
      and "r_converged res"
  shows "int (length (r_history res)) = iterations res - 1"
proof -
  let ?st = "\<lparr>user_query = q, generator_output = [], critic_feedback = [], iteration = 0,
              max_iterations = N, history = [], converged = False\<rparr>"
  obtain st' s' v' where
    r: "run post self q N verbose w =
          (Inr \<lparr>final_response = generator_output st', iterations = iteration st',
                r_converged = converged st', r_history = history st',
                generator_calls = call_count (generator s'),
                critic_calls = call_count (critic s')\<rparr>, s', v')" and
    s: "loop_summary post N 0 ?st self st' s'"
    using run_summary[OF assms(1), of post q N verbose w] by blast
  from r assms(2) have res: "iterations res = iteration st'" "r_converged res = converged st'"
    "r_history res = history st'"
    by auto
  from s assms(3) res have m: "map h_iteration (history st') = [1..iteration st' - 1]"
    and l: "list_all (\<lambda>r. (h_critic_feedback r = None) = (h_iteration r = N)) (history st')"
    and p: "0 < iteration st'"
    by (auto simp add: loop_summary_def)
  show ?thesis
    using numbered_history(1)[OF m l] p res by simp
qed

end
